theory Spec2Isabelle
  imports Main "HOL-Library.Word"
begin

unbundle bit_operations_syntax

section \<open>The platform size type\<close>

text \<open>
  The library computes on \<open>size_t\<close> throughout. The model fixes an LP64 platform:
  \<open>size_t\<close> is an unsigned 64-bit integer whose arithmetic wraps around, and
  \<open>sizeof(size_t)\<close> is 8.
\<close>

type_synonym size_t = "64 word"

definition sizeof_size_t :: size_t where
  "sizeof_size_t = 8"

text \<open>\<open>std::numeric_limits<size_t>::max()\<close>\<close>

definition size_t_max :: size_t where
  "size_t_max = - 1"

text \<open>
  Contextual conversion to \<open>bool\<close>, as an \<open>if\<close> condition and the operator \<open>!\<close> apply
  it: an integer is true when it is not zero, a \<open>std::optional\<close> when it holds a value.
\<close>

definition to_bool :: "size_t \<Rightarrow> bool" where
  "to_bool v = (v \<noteq> 0)"

definition has_value :: "'a option \<Rightarrow> bool" where
  "has_value r = (case r of None \<Rightarrow> False | Some v \<Rightarrow> True)"

section \<open>Arithmetic utilities (namespace detail)\<close>

definition is_power_of_two :: "size_t \<Rightarrow> bool" where
  "is_power_of_two n = (if n = 0 then False else (n AND (n - 1)) = 0)"

text \<open>
  \<open>bit_clear_range<size_t>(value, offset, n)\<close>. The shifts are by \<open>bits - n\<close> and by
  \<open>offset\<close>; the library only calls it with \<open>offset = 0\<close> and \<open>n = 4\<close>, where both
  shift counts are below the width.
\<close>

definition bit_clear_range :: "size_t \<Rightarrow> size_t \<Rightarrow> size_t \<Rightarrow> size_t" where
  "bit_clear_range v offset n =
     (let cap = size_t_max;
          bits = sizeof_size_t * 8;
          mask = drop_bit (unat (bits - n)) cap
      in v AND NOT (push_bit (unat offset) mask))"

text \<open>\<open>wrap_op(op, n, x, y)\<close> returns \<open>op(x, y) % n\<close>.\<close>

definition wrap_op ::
  "(size_t \<Rightarrow> size_t \<Rightarrow> size_t) \<Rightarrow> size_t \<Rightarrow> size_t \<Rightarrow> size_t \<Rightarrow> size_t" where
  "wrap_op op n x y = op x y mod n"

text \<open>In \<open>wrap_add\<close> and \<open>wrap_sub\<close> the modulus \<open>n\<close> is \<open>sizeof(decltype(x))\<close>.\<close>

definition wrap_add :: "size_t \<Rightarrow> size_t \<Rightarrow> size_t" where
  "wrap_add x y = (let n = sizeof_size_t in wrap_op (\<lambda>x y. x + y) n x y)"

definition wrap_sub :: "size_t \<Rightarrow> size_t \<Rightarrow> size_t" where
  "wrap_sub x y = (let n = sizeof_size_t in wrap_op (\<lambda>x y. x - y) n x y)"

text \<open>
  \<open>checked_op(op, check, x, y)\<close>: the raw result is computed, and when the value of
  \<open>check(raw_result, x, y)\<close> converts to true the empty optional is returned. The
  model takes \<open>check\<close> with that conversion already applied.
\<close>

definition checked_op ::
  "(size_t \<Rightarrow> size_t \<Rightarrow> size_t) \<Rightarrow> (size_t \<Rightarrow> size_t \<Rightarrow> size_t \<Rightarrow> bool)
     \<Rightarrow> size_t \<Rightarrow> size_t \<Rightarrow> size_t option" where
  "checked_op op check x y =
     (let raw_result = op x y
      in if check raw_result x y then None else Some raw_result)"

text \<open>
  The check of \<open>checked_add\<close> returns a \<open>std::optional\<close>: empty when
  \<open>res < (x | y)\<close>, holding \<open>res\<close> otherwise.
\<close>

definition checked_add :: "size_t \<Rightarrow> size_t \<Rightarrow> size_t option" where
  "checked_add x y =
     checked_op (\<lambda>x y. x + y)
       (\<lambda>res x y. has_value (if res < (x OR y) then None else Some res))
       x y"

text \<open>
  The check of \<open>checked_mul\<close> returns a \<open>size_t\<close>. \<open>sz\<close> is \<open>sizeof(size_t)\<close> and
  \<open>half\<close> is \<open>sz / 2\<close>, a count of bytes that is used as a count of bits.
\<close>

definition checked_mul :: "size_t \<Rightarrow> size_t \<Rightarrow> size_t option" where
  "checked_mul x y =
     checked_op (\<lambda>x y. x * y)
       (\<lambda>res x y.
          let sz = sizeof_size_t;
              half = sz div 2;
              a = drop_bit (unat half) x * bit_clear_range y 0 half;
              b = bit_clear_range x 0 half * drop_bit (unat half) y
          in to_bool (drop_bit (unat half) x * drop_bit (unat half) y
                        + drop_bit (unat half) a + drop_bit (unat half) b))
       x y"

section \<open>Layout\<close>

text \<open>
  The class has the two private members \<open>size_\<close> and \<open>align_\<close>, read by the public
  accessors \<open>size()\<close> and \<open>align()\<close>; the fields are named \<open>size_f\<close> and \<open>align_f\<close>
  here.
\<close>

record Layout =
  size_f :: size_t
  align_f :: size_t

text \<open>
  \<open>std::optional::value()\<close> throws \<open>std::bad_optional_access\<close> on an empty optional.
  The member functions that call it are declared \<open>noexcept\<close>, so the exception ends
  the program through \<open>std::terminate\<close>.
\<close>

datatype error = Bad_optional_access

definition value_of :: "'a option \<Rightarrow> error + 'a" where
  "value_of r = (case r of None \<Rightarrow> Inl Bad_optional_access | Some v \<Rightarrow> Inr v)"

text \<open>
  The private validating factory \<open>from_size_align(size, align)\<close>; the parameter
  \<open>size\<close> is written \<open>sz\<close> here and in \<open>required_padding\<close>.
\<close>

definition from_size_align :: "size_t \<Rightarrow> size_t \<Rightarrow> Layout option" where
  "from_size_align sz align =
     (if align \<noteq> 0 \<and> is_power_of_two align then None
      else if sz > size_t_max - (align - 1) then None
      else Some \<lparr>size_f = sz, align_f = align\<rparr>)"

text \<open>The public default constructor \<open>Layout()\<close>.\<close>

definition Layout_default :: Layout where
  "Layout_default = \<lparr>size_f = 0, align_f = 0\<rparr>"

text \<open>
  \<open>create<T>()\<close>; the two arguments stand for \<open>sizeof(T)\<close> and \<open>alignof(T)\<close>, which
  \<open>size_align<T>()\<close> returns.
\<close>

definition create :: "size_t \<Rightarrow> size_t \<Rightarrow> Layout option" where
  "create sizeof_T alignof_T = from_size_align sizeof_T alignof_T"

definition align_to :: "Layout \<Rightarrow> size_t \<Rightarrow> Layout option" where
  "align_to self align = from_size_align (size_f self) (max (align_f self) align)"

text \<open>
  \<open>required_padding\<close>: the operator in front of the second \<open>wrap_sub\<close> is the logical
  \<open>!\<close>, whose \<open>bool\<close> result is promoted to 0 or 1 for the bitwise \<open>&\<close>.
\<close>

definition required_padding :: "Layout \<Rightarrow> size_t \<Rightarrow> size_t" where
  "required_padding self align =
     (let sz = size_f self;
          rounded_up_size =
            wrap_sub (wrap_add sz align) 1 AND of_bool (\<not> to_bool (wrap_sub align 1))
      in wrap_sub rounded_up_size sz)"

definition pad_to_align :: "Layout \<Rightarrow> error + Layout" where
  "pad_to_align self =
     (let new_size = required_padding self (align_f self) + size_f self
      in value_of (from_size_align new_size (align_f self)))"

definition repeat :: "Layout \<Rightarrow> size_t \<Rightarrow> error + (Layout \<times> size_t) option" where
  "repeat self n =
     (let padded_size = size_f self + required_padding self (align_f self)
      in case checked_mul padded_size n of
           Some allocate_size \<Rightarrow>
             (case value_of (from_size_align allocate_size (align_f self)) of
                Inl e \<Rightarrow> Inl e
              | Inr layout \<Rightarrow> Inr (Some (layout, padded_size)))
         | None \<Rightarrow> Inr None)"

definition repeat_packed :: "Layout \<Rightarrow> size_t \<Rightarrow> Layout option" where
  "repeat_packed self n =
     (case checked_mul (size_f self) n of
        Some sz \<Rightarrow>
          (case from_size_align sz (align_f self) of
             Some layout \<Rightarrow> Some layout
           | None \<Rightarrow> None)
      | None \<Rightarrow> None)"

definition extend :: "Layout \<Rightarrow> Layout \<Rightarrow> (Layout \<times> size_t) option" where
  "extend self after =
     (let new_align = max (align_f self) (align_f after);
          padding = required_padding self new_align
      in case checked_add (size_f self) padding of
           Some offset \<Rightarrow>
             (case checked_add offset (size_f after) of
                Some new_size \<Rightarrow>
                  (case from_size_align new_size new_align of
                     Some layout \<Rightarrow> Some (layout, offset)
                   | None \<Rightarrow> None)
              | None \<Rightarrow> None)
         | None \<Rightarrow> None)"

definition extend_packed :: "Layout \<Rightarrow> Layout \<Rightarrow> Layout option" where
  "extend_packed self after =
     (case checked_add (size_f self) (size_f after) of
        Some new_size \<Rightarrow> from_size_align new_size (align_f self)
      | None \<Rightarrow> None)"

section \<open>The documented invariants and the public interface\<close>

text \<open>
  The invariants that the header comment of the library lists for a Layout: the
  alignment is positive, it is a power of two, and the size is at most
  \<open>MAX_SIZE - (align - 1)\<close>.
\<close>

definition layout_invariant :: "Layout \<Rightarrow> bool" where
  "layout_invariant l =
     (0 < align_f l \<and> is_power_of_two (align_f l) \<and> size_f l \<le> size_t_max - (align_f l - 1))"

text \<open>
  The Layout values a caller can obtain: from the public default constructor, from
  \<open>create<T>()\<close>, and from every public member function applied to values obtained
  before, whenever that function returns a Layout. For \<open>create<T>()\<close> the size of
  \<open>T\<close> is arbitrary and its alignment is a power of two, as \<open>alignof\<close> is for every
  C++ type; \<open>array<T>\<close> composes \<open>create\<close>, \<open>repeat\<close> and \<open>pad_to_align\<close> and adds
  no further value.
\<close>

inductive obtainable :: "Layout \<Rightarrow> bool" where
  ob_default: "obtainable Layout_default"
| ob_create:
    "is_power_of_two alignof_T \<Longrightarrow> create sizeof_T alignof_T = Some l \<Longrightarrow> obtainable l"
| ob_align_to: "obtainable self \<Longrightarrow> align_to self align = Some l \<Longrightarrow> obtainable l"
| ob_pad_to_align: "obtainable self \<Longrightarrow> pad_to_align self = Inr l \<Longrightarrow> obtainable l"
| ob_repeat: "obtainable self \<Longrightarrow> repeat self n = Inr (Some (l, stride)) \<Longrightarrow> obtainable l"
| ob_repeat_packed: "obtainable self \<Longrightarrow> repeat_packed self n = Some l \<Longrightarrow> obtainable l"
| ob_extend:
    "obtainable self \<Longrightarrow> obtainable after \<Longrightarrow> extend self after = Some (l, offset)
       \<Longrightarrow> obtainable l"
| ob_extend_packed:
    "obtainable self \<Longrightarrow> obtainable after \<Longrightarrow> extend_packed self after = Some l
       \<Longrightarrow> obtainable l"


section \<open>The power-of-two test\<close>

text \<open>
  \<open>is_power_of_two\<close> is the usual bit test, and on its own it is right: it accepts
  exactly the values \<open>2 ^ k\<close> with \<open>k < 64\<close>.
\<close>

lemma nat_and_pred_zero:
  fixes n :: nat
  assumes "0 < n" and "n AND (n - 1) = 0"
  shows "\<exists>k. n = 2 ^ k"
  using assms
proof (induction n rule: less_induct)
  case (less n)
  show ?case
  proof (cases "even n")
    case True
    then obtain m where m: "n = 2 * m" by (auto elim: evenE)
    with less.prems have mpos: "0 < m" by simp
    then have pred: "n - 1 = 2 * (m - 1) + 1"
      using m by simp
    have "n AND (n - 1) = 2 * (m AND (m - 1))"
      unfolding pred unfolding m
      by (simp add: and_nat_rec [of "2 * m"] )
    with less.prems have "m AND (m - 1) = 0" by simp
    moreover have "m < n" using m mpos by simp
    ultimately obtain k where "m = 2 ^ k"
      using less.IH [of m] mpos by blast
    with m have "n = 2 ^ (Suc k)" by simp
    then show ?thesis by blast
  next
    case False
    then obtain m where m: "n = 2 * m + 1" by (auto elim: oddE)
    have "n AND (n - 1) = 2 * m"
      unfolding m using and_nat_rec [of "Suc (2 * m)" "2 * m"] by simp
    with less.prems have "m = 0" by simp
    with m have "n = 2 ^ 0" by simp
    then show ?thesis by blast
  qed
qed

lemma is_power_of_two_iff:
  "is_power_of_two n \<longleftrightarrow> (\<exists>k<64. n = 2 ^ k)"
proof
  assume p: "is_power_of_two n"
  then have n0: "n \<noteq> 0" and z: "n AND (n - 1) = 0"
    by (auto simp: is_power_of_two_def split: if_splits)
  from n0 have pos: "0 < unat n"
    by (simp add: unat_gt_0)
  from n0 have "unat (n - 1) = unat n - 1"
    by (simp add: unat_minus_one)
  with z have "unat n AND (unat n - 1) = 0"
    by (metis unsigned_and_eq unsigned_0)
  with pos obtain k where k: "unat n = 2 ^ k"
    using nat_and_pred_zero by blast
  have "unat n < 2 ^ LENGTH(64)"
    by (rule unsigned_less)
  with k have "(2 :: nat) ^ k < 2 ^ 64"
    by simp
  then have "k < 64"
    by (simp only: power_strict_increasing_iff one_less_numeral_iff semiring_norm)
  moreover have "n = of_nat (unat n)"
    by simp
  with k have "n = 2 ^ k"
    by simp
  ultimately show "\<exists>k<64. n = 2 ^ k"
    by blast
next
  assume "\<exists>k<64. n = 2 ^ k"
  then obtain k where k: "k < 64" and n: "n = 2 ^ k"
    by blast
  have "(2 ^ k :: size_t) AND mask k = 0"
    by (rule bit_eqI) (auto simp: bit_simps)
  moreover from k have "(2 ^ k :: size_t) \<noteq> 0"
    by simp
  ultimately show "is_power_of_two n"
    by (simp add: is_power_of_two_def n mask_eq_exp_minus_1)
qed

section \<open>What the arithmetic utilities compute\<close>

text \<open>
  The comparison \<open>res < (x | y)\<close> on the wrapped sum is an exact overflow test: it holds
  precisely when the mathematical sum does not fit in 64 bits.
\<close>

lemma add_less_or_iff:
  fixes x y :: size_t
  shows "x + y < (x OR y) \<longleftrightarrow> 2 ^ 64 \<le> unat x + unat y"
proof -
  have "int (unat (x AND y) + unat (x OR y)) = int (unat x + unat y)"
    by (simp add: unsigned_and_eq unsigned_or_eq of_nat_and_eq of_nat_or_eq plus_and_or)
  then have split: "unat (x AND y) + unat (x OR y) = unat x + unat y"
    by (simp only: of_nat_eq_iff)
  have and_lt: "unat (x AND y) < 2 ^ 64"
    using unsigned_less [of "x AND y", where ?'a = nat] by simp
  have res: "unat (x + y) = (unat x + unat y) mod 2 ^ 64"
    by (simp add: unat_word_ariths)
  show ?thesis
  proof (cases "unat x + unat y < 2 ^ 64")
    case True
    then have "unat (x + y) = unat x + unat y"
      using res by simp
    with split have "unat (x OR y) \<le> unat (x + y)"
      by linarith
    with True show ?thesis
      by (simp add: word_less_nat_alt)
  next
    case False
    then have ge: "2 ^ 64 \<le> unat x + unat y"
      by simp
    have "unat x < 2 ^ 64" "unat y < 2 ^ 64"
      using unsigned_less [of x, where ?'a = nat] unsigned_less [of y, where ?'a = nat]
      by simp_all
    then have "unat x + unat y - 2 ^ 64 < 2 ^ 64"
      by linarith
    with ge have "(unat x + unat y) mod 2 ^ 64 = unat x + unat y - 2 ^ 64"
      by (metis mod_less le_mod_geq)
    with res split and_lt ge have "unat (x + y) < unat (x OR y)"
      by linarith
    with ge show ?thesis
      by (simp add: word_less_nat_alt)
  qed
qed

text \<open>
  Hence \<open>checked_add\<close> is determined on every input: the optional that the check
  returns holds a value exactly when there was no overflow, and \<open>checked_op\<close> returns
  the empty optional exactly then.
\<close>

lemma checked_add_eq:
  "checked_add x y = (if unat x + unat y < 2 ^ 64 then None else Some (x + y))"
  using add_less_or_iff [of x y]
  by (simp add: checked_add_def checked_op_def has_value_def Let_def)

section \<open>What the factory accepts\<close>

lemma from_size_align_power_of_two:
  "is_power_of_two align \<Longrightarrow> from_size_align sz align = None"
  by (auto simp: from_size_align_def is_power_of_two_def)

lemma from_size_align_Some:
  "from_size_align sz align = Some l \<Longrightarrow>
     l = \<lparr>size_f = sz, align_f = align\<rparr> \<and> \<not> is_power_of_two align
       \<and> sz \<le> size_t_max - (align - 1)"
  by (auto simp: from_size_align_def is_power_of_two_def split: if_splits)

lemma pad_to_align_power_of_two:
  "is_power_of_two (align_f l) \<Longrightarrow> pad_to_align l = Inl Bad_optional_access"
  by (simp add: pad_to_align_def Let_def from_size_align_power_of_two value_of_def)

text \<open>
  Every Layout that the public interface yields has an alignment that the library's
  own \<open>is_power_of_two\<close> rejects: the default constructor sets it to zero, and all
  other values pass through \<open>from_size_align\<close>.
\<close>

lemma obtainable_not_power_of_two:
  "obtainable l \<Longrightarrow> \<not> is_power_of_two (align_f l)"
proof (induction rule: obtainable.induct)
  case ob_default
  show ?case by (simp add: Layout_default_def is_power_of_two_def)
next
  case (ob_create alignof_T sizeof_T l)
  then show ?case
    using from_size_align_Some [of sizeof_T alignof_T l] by (simp add: create_def)
next
  case (ob_align_to self align l)
  then show ?case
    using from_size_align_Some [of "size_f self" "max (align_f self) align" l]
    by (simp add: align_to_def)
next
  case (ob_pad_to_align self l)
  then show ?case
    by (auto simp: pad_to_align_def Let_def value_of_def split: option.splits
             dest: from_size_align_Some)
next
  case (ob_repeat self n l stride)
  then show ?case
    by (auto simp: repeat_def Let_def value_of_def split: option.splits
             dest: from_size_align_Some)
next
  case (ob_repeat_packed self n l)
  then show ?case
    by (auto simp: repeat_packed_def split: option.splits dest: from_size_align_Some)
next
  case (ob_extend self after l offset)
  then show ?case
    by (auto simp: extend_def Let_def split: option.splits dest: from_size_align_Some)
next
  case (ob_extend_packed self after l)
  then show ?case
    by (auto simp: extend_packed_def split: option.splits dest: from_size_align_Some)
qed

lemma obtainable_not_invariant: "obtainable l \<Longrightarrow> \<not> layout_invariant l"
  using obtainable_not_power_of_two [of l] by (simp add: layout_invariant_def)

text \<open>
  The size bound is the part of the invariant that does hold of every obtainable
  Layout, in the wrapping arithmetic of \<open>size_t\<close> in which the library tests it.
\<close>

lemma obtainable_size_bound:
  "obtainable l \<Longrightarrow> size_f l \<le> size_t_max - (align_f l - 1)"
proof (induction rule: obtainable.induct)
  case ob_default
  show ?case by (simp add: Layout_default_def)
next
  case (ob_create alignof_T sizeof_T l)
  then show ?case
    using from_size_align_Some [of sizeof_T alignof_T l] by (auto simp: create_def)
next
  case (ob_align_to self align l)
  then show ?case
    using from_size_align_Some [of "size_f self" "max (align_f self) align" l]
    by (auto simp: align_to_def)
next
  case (ob_pad_to_align self l)
  then show ?case
    by (auto simp: pad_to_align_def Let_def value_of_def split: option.splits
             dest: from_size_align_Some)
next
  case (ob_repeat self n l stride)
  then show ?case
    by (auto simp: repeat_def Let_def value_of_def split: option.splits
             dest: from_size_align_Some)
next
  case (ob_repeat_packed self n l)
  then show ?case
    by (auto simp: repeat_packed_def split: option.splits dest: from_size_align_Some)
next
  case (ob_extend self after l offset)
  then show ?case
    by (auto simp: extend_def Let_def split: option.splits dest: from_size_align_Some)
next
  case (ob_extend_packed self after l)
  then show ?case
    by (auto simp: extend_packed_def split: option.splits dest: from_size_align_Some)
qed

section \<open>What the multiplication check looks at\<close>

text \<open>
  With \<open>half = 4\<close> the check of \<open>checked_mul\<close> splits its operands at bit 4, not at
  bit 32. A left operand below 16 has no bits above the split, the check value is
  zero, and the wrapped product is returned whatever the right operand is.
\<close>

lemma bit_clear_range_low: "bit_clear_range v 0 4 = v AND NOT (mask 4)"
  by (simp add: bit_clear_range_def sizeof_size_t_def size_t_max_def Let_def
        mask_eq_exp_minus_1 drop_bit_eq_div)

lemma small_high_part:
  fixes x :: size_t
  assumes "x < 16"
  shows "drop_bit 4 x = 0" and "x AND NOT (mask 4) = 0"
proof -
  from assms have "x AND mask 4 = x"
    by (intro less_mask_eq) simp
  then have tb: "take_bit 4 x = x"
    by (simp add: take_bit_eq_mask)
  then show "drop_bit 4 x = 0"
    by (simp add: take_bit_eq_self_iff_drop_bit_eq_0)
  have "take_bit 4 x AND NOT (mask 4) = 0"
    by (rule bit_eqI) (auto simp: bit_simps)
  with tb show "x AND NOT (mask 4) = 0"
    by simp
qed

lemma checked_mul_small:
  assumes "x < 16"
  shows "checked_mul x y = Some (x * y)"
proof -
  have half: "unat (sizeof_size_t div 2) = 4"
    by (simp add: sizeof_size_t_def)
  have h: "sizeof_size_t div 2 = 4"
    by (simp add: sizeof_size_t_def)
  show ?thesis
    using small_high_part [OF assms]
    by (simp add: checked_mul_def checked_op_def Let_def half h bit_clear_range_low
          to_bool_def)
qed

section \<open>Padding, repetition and extension\<close>

text \<open>
  Both \<open>wrap_add\<close> and \<open>wrap_sub\<close> reduce modulo \<open>sizeof(size_t)\<close>, so a padding
  is always below 8, and unless \<open>align - 1\<close> is a multiple of 8 the alignment plays
  no part in it: the logical \<open>!\<close> then gives 0 and the rounded size is 0.
\<close>

lemma required_padding_less: "required_padding self align < 8"
  by (simp add: required_padding_def wrap_sub_def wrap_op_def sizeof_size_t_def Let_def
        word_mod_less_divisor)

lemma required_padding_ignores_align:
  assumes "(align - 1) mod 8 \<noteq> 0"
  shows "required_padding self align = (- size_f self) mod 8"
  using assms
  by (simp add: required_padding_def wrap_sub_def wrap_add_def wrap_op_def sizeof_size_t_def
        to_bool_def Let_def)


text \<open>
  On a power-of-two alignment \<open>repeat\<close> never returns a Layout: either the
  multiplication check fires, or \<open>value()\<close> is called on the empty optional.
\<close>

lemma repeat_power_of_two:
  assumes "is_power_of_two (align_f self)"
  shows "repeat self n = Inl Bad_optional_access \<or> repeat self n = Inr None"
  using assms
  by (simp add: repeat_def Let_def from_size_align_power_of_two value_of_def
        split: option.splits)

text \<open>
  \<open>extend\<close> returns a value only when its first \<open>checked_add\<close> does, that is, only
  when size plus padding overflows; and it returns none at all when both alignments
  are powers of two, since their maximum is one as well.
\<close>

lemma extend_Some_overflow:
  assumes "extend self after = Some r"
  shows "2 ^ 64 \<le> unat (size_f self)
           + unat (required_padding self (max (align_f self) (align_f after)))"
  using assms
  by (auto simp: extend_def Let_def checked_add_eq split: option.splits if_splits)

lemma max_power_of_two:
  "is_power_of_two a \<Longrightarrow> is_power_of_two b \<Longrightarrow> is_power_of_two (max a b)"
  by (simp add: max_def)

lemma extend_power_of_two:
  assumes "is_power_of_two (align_f self)" and "is_power_of_two (align_f after)"
  shows "extend self after = None"
  using max_power_of_two [OF assms]
  by (simp add: extend_def Let_def from_size_align_power_of_two split: option.splits)

section \<open>What a caller can observe\<close>

text \<open>
  \<open>create<T>()\<close> hands a power-of-two alignment to \<open>from_size_align\<close> and so never
  returns a Layout.
\<close>

lemma create_power_of_two:
  "is_power_of_two alignof_T \<Longrightarrow> create sizeof_T alignof_T = None"
  by (simp add: create_def from_size_align_power_of_two)

text \<open>
  A Layout of size 0 needs no padding, whatever the alignment: when \<open>align - 1\<close> is
  a multiple of 8 the rounded size is \<open>0 & 1\<close>, and otherwise it is masked with 0.
\<close>

lemma mod8_pred_zero:
  fixes a :: size_t
  assumes "(a - 1) mod 8 = 0"
  shows "a mod 8 = 1"
proof (cases "a = 0")
  case True
  with assms show ?thesis by simp
next
  case False
  then have u: "unat (a - 1) = unat a - 1" and pos: "0 < unat a"
    by (simp_all add: unat_minus_one unat_gt_0)
  from assms have "unat ((a - 1) mod 8) = 0"
    by simp
  then have "(unat a - 1) mod 8 = 0"
    by (simp add: unat_mod u)
  with pos have "unat a mod 8 = 1"
    by presburger
  then have "unat (a mod 8) = unat (1 :: size_t)"
    by (simp add: unat_mod)
  then show ?thesis
    by (simp only: word_unat_eq_iff)
qed

lemma required_padding_size_zero:
  assumes "size_f self = 0"
  shows "required_padding self align = 0"
proof (cases "(align - 1) mod 8 = 0")
  case True
  then show ?thesis
    using assms mod8_pred_zero [OF True]
    by (simp add: required_padding_def wrap_sub_def wrap_add_def wrap_op_def
          sizeof_size_t_def to_bool_def Let_def)
next
  case False
  then show ?thesis
    using assms required_padding_ignores_align [OF False, of self] by simp
qed

text \<open>
  On size 0 the two checked operations are fixed: \<open>checked_add(0, 0)\<close> is absent and
  \<open>checked_mul(0, n)\<close> is 0.
\<close>

lemma checked_add_zero: "checked_add 0 0 = None"
  by (simp add: checked_add_eq)

lemma checked_mul_zero: "checked_mul 0 n = Some 0"
  using checked_mul_small [of 0 n] by simp


text \<open>
  Hence every Layout a caller can obtain has size 0: the default constructor starts
  there, \<open>align_to\<close>, \<open>pad_to_align\<close>, \<open>repeat\<close> and \<open>repeat_packed\<close> keep the
  size at 0, and \<open>extend\<close> and \<open>extend_packed\<close> return nothing.
\<close>

lemma obtainable_size_zero: "obtainable l \<Longrightarrow> size_f l = 0"
proof (induction rule: obtainable.induct)
  case ob_default
  show ?case by (simp add: Layout_default_def)
next
  case (ob_create alignof_T sizeof_T l)
  then show ?case
    by (simp add: create_power_of_two)
next
  case (ob_align_to self align l)
  then show ?case
    using from_size_align_Some [of "size_f self" "max (align_f self) align" l]
    by (auto simp: align_to_def)
next
  case (ob_pad_to_align self l)
  then show ?case
    by (auto simp: pad_to_align_def Let_def value_of_def required_padding_size_zero
             split: option.splits dest: from_size_align_Some)
next
  case (ob_repeat self n l stride)
  then show ?case
    by (auto simp: repeat_def Let_def value_of_def required_padding_size_zero
                   checked_mul_zero
             split: option.splits dest: from_size_align_Some)
next
  case (ob_repeat_packed self n l)
  then show ?case
    by (auto simp: repeat_packed_def checked_mul_zero split: option.splits
             dest: from_size_align_Some)
next
  case (ob_extend self after l offset)
  then show ?case
    by (simp add: extend_def Let_def required_padding_size_zero checked_add_zero)
next
  case (ob_extend_packed self after l)
  then show ?case
    by (simp add: extend_packed_def checked_add_zero)
qed




lemma extend_obtainable:
  assumes "obtainable l"
  shows "extend l after = None"
  using obtainable_size_zero [OF assms]
  by (simp add: extend_def Let_def required_padding_size_zero checked_add_zero)

section \<open>The claims\<close>

text \<open>
  C1. The claim: \<open>checked_add(x, y)\<close> is absent exactly when the mathematical sum
  exceeds the largest \<open>size_t\<close>, and is the exact sum otherwise. The library's
  function does the opposite on both sides: the sum of 1 and 2 is representable and
  the result is absent; the largest value plus 1 is not representable and the result
  is the wrapped sum 0. (Lemma \<open>checked_add_eq\<close> gives the result on every input.)
\<close>

theorem checked_add_absent_without_overflow:
  "checked_add 1 2 = None \<and> checked_add size_t_max 1 = Some 0"
  by code_simp

text \<open>
  C2. The claim: \<open>from_size_align\<close> fails when the alignment is zero or not a power
  of two, in particular for alignment 3 at every size, and \<open>from_size_align(0, 1)\<close>
  yields size 0 and alignment 1. The library's function rejects size 0 with alignment
  1, and accepts size 0 with alignment 3 and with alignment 0.
\<close>

theorem from_size_align_rejects_power_of_two:
  "from_size_align 0 1 = None
   \<and> from_size_align 0 3 = Some \<lparr>size_f = 0, align_f = 3\<rparr>
   \<and> from_size_align 0 0 = Some \<lparr>size_f = 0, align_f = 0\<rparr>"
  by code_simp

text \<open>
  C4. The claim: \<open>checked_mul(x, y)\<close> is absent exactly when the mathematical
  product exceeds the largest \<open>size_t\<close>, and never a truncated value. In the
  library, 16 times 16 fits and the result is absent, while 2 times \<open>2 ^ 63\<close> does
  not fit and the result is the truncated product 0.
\<close>

theorem checked_mul_wrong_both_ways:
  "unat (16 :: size_t) * unat (16 :: size_t) < 2 ^ 64
   \<and> checked_mul 16 16 = None
   \<and> 2 ^ 64 \<le> unat (2 :: size_t) * unat (2 ^ 63 :: size_t)
   \<and> checked_mul 2 (2 ^ 63) = Some 0"
proof -
  have "checked_mul 16 16 = None"
    by code_simp
  moreover have "checked_mul 2 (2 ^ 63) = Some 0"
    using checked_mul_small [of 2 "2 ^ 63"] by simp
  ultimately show ?thesis
    by simp
qed

text \<open>
  C3. The claim: every Layout obtainable through the public interface has a positive
  power-of-two alignment and a size of at most \<open>MAX_SIZE - (align - 1)\<close>. In the
  library the default constructor yields alignment 0, and \<open>Layout().align_to(3)\<close>
  yields alignment 3; neither satisfies the invariant. (By lemma
  \<open>obtainable_not_invariant\<close> no obtainable Layout does.)
\<close>

theorem obtainable_layout_breaks_invariant:
  "obtainable Layout_default \<and> \<not> layout_invariant Layout_default
   \<and> obtainable \<lparr>size_f = 0, align_f = 3\<rparr>
   \<and> \<not> layout_invariant \<lparr>size_f = 0, align_f = 3\<rparr>"
proof -
  have "align_to Layout_default 3 = Some \<lparr>size_f = 0, align_f = 3\<rparr>"
    by code_simp
  then have "obtainable \<lparr>size_f = 0, align_f = 3\<rparr>"
    by (rule ob_align_to [OF ob_default])
  moreover have "\<not> layout_invariant Layout_default"
    by code_simp
  moreover have "\<not> layout_invariant \<lparr>size_f = 0, align_f = 3\<rparr>"
    by code_simp
  ultimately show ?thesis
    using ob_default by simp
qed







text \<open>
  C10. The public default constructor yields size 0 and alignment 0, an alignment
  that is neither positive nor a power of two, and this Layout is obtainable without
  a call of \<open>from_size_align\<close>.
\<close>

theorem Layout_default_align_zero:
  "size_f Layout_default = 0 \<and> align_f Layout_default = 0
   \<and> \<not> 0 < align_f Layout_default
   \<and> \<not> is_power_of_two (align_f Layout_default)
   \<and> obtainable Layout_default"
  using ob_default by (simp add: Layout_default_def is_power_of_two_def)

end
